theory Spec2Isabelle
  imports Main "HOL-Library.Sublist"
begin

section \<open>JavaScript values as the request builder sees them\<close>

text \<open>
  \<^verbatim>\<open>src/globus.js\<close> reads fields of a caller-supplied options object, joins them to
  string literals with \<^verbatim>\<open>+\<close>, chooses defaults with \<^verbatim>\<open>||\<close> and hands a URL and a
  descriptor object to the HTTP client \<^verbatim>\<open>request\<close>. The values that can flow through
  are modelled by \<open>jsval\<close>. \<open>JNum i\<close> is the number whose value is the integer \<open>i\<close>
  (a safe integer, so that its decimal rendering is its string form) and \<open>JNaN\<close> is
  the not-a-number value; numbers beyond the safe integers, other non-integral numbers,
  symbols and function values are outside the model. \<open>JObj\<close> is a plain object (one
  that does not redefine \<^verbatim>\<open>toString\<close> or \<^verbatim>\<open>valueOf\<close>), its fields in the order they
  are written.
\<close>

datatype jsval =
    JUndefined
  | JNull
  | JBool bool
  | JNum int
  | JNaN
  | JStr string
  | JArr "jsval list"
  | JObj "(string \<times> jsval) list"

subsection \<open>Number to string\<close>

definition digit_char :: "nat \<Rightarrow> char" where
  "digit_char d = ''0123456789'' ! d"

function string_of_nat :: "nat \<Rightarrow> string" where
  "string_of_nat n =
     (if n < 10 then [digit_char n]
      else string_of_nat (n div 10) @ [digit_char (n mod 10)])"
  by pat_completeness auto
termination
  by (relation "measure id") auto

declare string_of_nat.simps [simp del]

definition string_of_int :: "int \<Rightarrow> string" where
  "string_of_int i = (if i < 0 then CHR ''-'' # string_of_nat (nat (- i)) else string_of_nat (nat i))"

subsection \<open>ToString, ToBoolean, the operators \<^verbatim>\<open>+\<close> and \<^verbatim>\<open>||\<close>\<close>

text \<open>
  \<open>ToString\<close> is the conversion that \<^verbatim>\<open>'literal' + v\<close> applies to \<open>v\<close>: a plain object
  renders as \<^verbatim>\<open>[object Object]\<close>, an array as its elements joined by commas, with
  \<^verbatim>\<open>undefined\<close> and \<^verbatim>\<open>null\<close> elements rendered empty.
\<close>

fun ToString :: "jsval \<Rightarrow> string"
  and join_elements :: "jsval list \<Rightarrow> string"
  and element_string :: "jsval \<Rightarrow> string" where
  "ToString JUndefined = ''undefined''"
| "ToString JNull = ''null''"
| "ToString (JBool b) = (if b then ''true'' else ''false'')"
| "ToString (JNum i) = string_of_int i"
| "ToString JNaN = ''NaN''"
| "ToString (JStr s) = s"
| "ToString (JArr xs) = join_elements xs"
| "ToString (JObj fs) = ''[object Object]''"
| "join_elements [] = []"
| "join_elements [x] = element_string x"
| "join_elements (x # y # ys) = element_string x @ '','' @ join_elements (y # ys)"
| "element_string JUndefined = []"
| "element_string JNull = []"
| "element_string v = ToString v"

text \<open>The falsy values are \<^verbatim>\<open>undefined\<close>, \<^verbatim>\<open>null\<close>, \<^verbatim>\<open>false\<close>, \<^verbatim>\<open>0\<close>, \<^verbatim>\<open>NaN\<close> and \<^verbatim>\<open>''\<close>.\<close>

fun ToBoolean :: "jsval \<Rightarrow> bool" where
  "ToBoolean JUndefined = False"
| "ToBoolean JNull = False"
| "ToBoolean (JBool b) = b"
| "ToBoolean (JNum i) = (i \<noteq> 0)"
| "ToBoolean JNaN = False"
| "ToBoolean (JStr s) = (s \<noteq> [])"
| "ToBoolean (JArr xs) = True"
| "ToBoolean (JObj fs) = True"

text \<open>\<^verbatim>\<open>a || b\<close> is \<open>a\<close> when \<open>a\<close> is truthy and \<open>b\<close> otherwise.\<close>

definition js_or :: "jsval \<Rightarrow> jsval \<Rightarrow> jsval" where
  "js_or a b = (if ToBoolean a then a else b)"

text \<open>
  Every \<^verbatim>\<open>+\<close> of the source has a string operand, so it is string concatenation
  after \<open>ToString\<close> of the other operand: \<^verbatim>\<open>'/endpoint/' + v\<close> is
  \<open>''/endpoint/'' @ ToString v\<close>.
\<close>

text \<open>
  \<^verbatim>\<open>s.replace(pat, rep)\<close> with a string pattern replaces the first occurrence of
  \<open>pat\<close> only. (The replacement \<^verbatim>\<open>'%40'\<close> has no \<^verbatim>\<open>$\<close> pattern, so it is inserted
  as it is.)
\<close>

fun js_replace :: "string \<Rightarrow> string \<Rightarrow> string \<Rightarrow> string" where
  "js_replace [] pat rep = (if pat = [] then rep else [])"
| "js_replace (c # cs) pat rep =
     (if prefix pat (c # cs) then rep @ drop (length pat) (c # cs)
      else c # js_replace cs pat rep)"

section \<open>Options bag, request descriptor, effects\<close>

text \<open>
  The options bag is an object: a map from field names to values. Reading a
  field that is absent gives \<^verbatim>\<open>undefined\<close>.
\<close>

type_synonym options = "string \<rightharpoonup> jsval"

definition field :: "options \<Rightarrow> string \<Rightarrow> jsval" where
  "field opts k = (case opts k of None \<Rightarrow> JUndefined | Some v \<Rightarrow> v)"

text \<open>
  The second argument of \<^verbatim>\<open>request(url, {auth: {bearer: t}, method: m, body: b, json: true})\<close>.
  \<open>http_method\<close>, \<open>body\<close> and \<open>json\<close> are \<open>None\<close> when the object does not have
  the key (the HTTP client then sends a GET without a body).
\<close>

record request_options =
  auth_bearer :: jsval
  http_method :: "string option"
  body :: "jsval option"
  json :: "bool option"

text \<open>The request handed to the HTTP client: the URL and the options.\<close>

record request_descriptor =
  url :: string
  bearer :: jsval
  req_method :: "string option"
  payload :: "jsval option"
  json_mode :: "bool option"

text \<open>
  An operation either throws or returns the promise of the response to the request it
  has handed to the HTTP client. The requests handed over so far are the state.
\<close>

datatype js_error = Error string | TypeError

datatype promise = ResponseOf request_descriptor

type_synonym network = "request_descriptor list"

type_synonym 'a js = "network \<Rightarrow> (js_error + 'a) \<times> network"

definition js_throw :: "js_error \<Rightarrow> 'a js" where
  "js_throw e = (\<lambda>net. (Inl e, net))"

definition js_seq :: "'a js \<Rightarrow> 'b js \<Rightarrow> 'b js" where
  "js_seq first rest =
     (\<lambda>net. case first net of
        (Inl e, net') \<Rightarrow> (Inl e, net')
      | (Inr _, net') \<Rightarrow> rest net')"

definition descriptor :: "string \<Rightarrow> request_options \<Rightarrow> request_descriptor" where
  "descriptor u ro =
     \<lparr>url = u, bearer = auth_bearer ro, req_method = http_method ro,
      payload = body ro, json_mode = json ro\<rparr>"

definition request :: "string \<Rightarrow> request_options \<Rightarrow> promise js" where
  "request u ro = (\<lambda>net. (Inr (ResponseOf (descriptor u ro)), net @ [descriptor u ro]))"

section \<open>The exported operations of globus.js\<close>

definition transferBaseURL :: string where
  "transferBaseURL = ''https://transfer.api.globusonline.org/v0.10''"

definition authBaseURL :: string where
  "authBaseURL = ''https://auth.globus.org/v2/api''"

subsection \<open>Access rules\<close>

definition getAccessRulesList :: "jsval \<Rightarrow> options \<Rightarrow> promise js" where
  "getAccessRulesList bearerToken options =
     (let url = transferBaseURL @ ''/endpoint/'' @ ToString (field options ''endpoint_xid'') @ ''/access_list''
      in request url
           \<lparr>auth_bearer = bearerToken, http_method = None, body = None, json = Some True\<rparr>)"

definition getAccessRulesListById :: "jsval \<Rightarrow> options \<Rightarrow> promise js" where
  "getAccessRulesListById bearerToken options =
     (let url = transferBaseURL @ ''/endpoint/'' @ ToString (field options ''endpoint_xid'')
                @ ''/access/'' @ ToString (field options ''id'')
      in request url
           \<lparr>auth_bearer = bearerToken, http_method = None, body = None, json = Some True\<rparr>)"

text \<open>The body of \<^verbatim>\<open>createAccessRule\<close> has the literal \<^verbatim>\<open>permissions: 'r'\<close>.\<close>

definition createAccessRule :: "jsval \<Rightarrow> options \<Rightarrow> promise js" where
  "createAccessRule bearerToken options =
     (let url = transferBaseURL @ ''/endpoint/'' @ ToString (field options ''endpoint_xid'') @ ''/access'';
          body = JObj
            [(''DATA_TYPE'', JStr ''access''),
             (''principal_type'', JStr ''identity''),
             (''principal'', field options ''userId''),
             (''path'', field options ''path''),
             (''permissions'', JStr ''r''),
             (''notify_email'', field options ''userEmail'')]
      in request url
           \<lparr>auth_bearer = bearerToken, http_method = Some ''POST'', body = Some body, json = Some True\<rparr>)"

definition updateAccessRule :: "jsval \<Rightarrow> options \<Rightarrow> promise js" where
  "updateAccessRule bearerToken options =
     (let url = transferBaseURL @ ''/endpoint/'' @ ToString (field options ''endpoint_xid'')
                @ ''/access/'' @ ToString (field options ''id'');
          body = JObj
            [(''DATA_TYPE'', JStr ''access''),
             (''id'', field options ''id''),
             (''role_id'', field options ''role_id''),
             (''principal_type'', field options ''principal_type''),
             (''principal'', field options ''principal''),
             (''path'', field options ''path''),
             (''permissions'', field options ''permissions'')]
      in request url
           \<lparr>auth_bearer = bearerToken, http_method = Some ''POST'', body = Some body, json = Some True\<rparr>)"

text \<open>
  \<^verbatim>\<open>deleteAccessRule\<close> starts its URL with the field \<^verbatim>\<open>options.transferBaseURL\<close>, not
  with the constant.
\<close>

definition deleteAccessRule :: "jsval \<Rightarrow> options \<Rightarrow> promise js" where
  "deleteAccessRule bearerToken options =
     (let url = ToString (field options ''transferBaseURL'') @ ''/endpoint/''
                @ ToString (field options ''endpoint_xid'') @ ''/access/'' @ ToString (field options ''id'')
      in request url
           \<lparr>auth_bearer = bearerToken, http_method = Some ''DELETE'', body = None, json = None\<rparr>)"

subsection \<open>Activation\<close>

definition getActivationRequirements :: "jsval \<Rightarrow> options \<Rightarrow> promise js" where
  "getActivationRequirements bearerToken options =
     (let url = transferBaseURL @ ''/endpoint/'' @ ToString (field options ''endpoint_xid'')
                @ ''/activation_requirements''
      in request url
           \<lparr>auth_bearer = bearerToken, http_method = None, body = None, json = None\<rparr>)"

definition autoActivateEndpoint :: "jsval \<Rightarrow> options \<Rightarrow> promise js" where
  "autoActivateEndpoint bearerToken options =
     (let url = transferBaseURL @ ''/endpoint/'' @ ToString (field options ''endpoint_xid'') @ ''/autoactivate''
      in request url
           \<lparr>auth_bearer = bearerToken, http_method = Some ''POST'', body = None, json = None\<rparr>)"

definition activateEndpoint :: "jsval \<Rightarrow> options \<Rightarrow> promise js" where
  "activateEndpoint bearerToken options =
     (let url = transferBaseURL @ ''/endpoint/'' @ ToString (field options ''endpoint_xid'') @ ''/activate'';
          body = field options ''document''
      in request url
           \<lparr>auth_bearer = bearerToken, http_method = Some ''POST'', body = Some body, json = Some True\<rparr>)"

definition deactivateEndpoint :: "jsval \<Rightarrow> options \<Rightarrow> promise js" where
  "deactivateEndpoint bearerToken options =
     (let url = transferBaseURL @ ''/endpoint/'' @ ToString (field options ''endpoint_xid'') @ ''/deactivate''
      in request url
           \<lparr>auth_bearer = bearerToken, http_method = Some ''POST'', body = None, json = None\<rparr>)"

subsection \<open>Identity lookup\<close>

text \<open>
  \<^verbatim>\<open>options.userEmail.replace('@', '%40')\<close> is a method call on the field: on a value
  that is not a string (which has no \<^verbatim>\<open>replace\<close> method in this model) it throws a
  TypeError before any request is made.
\<close>

definition getUserId :: "jsval \<Rightarrow> options \<Rightarrow> promise js" where
  "getUserId bearerToken options =
     (case field options ''userEmail'' of
        JStr userEmail \<Rightarrow>
          (let url = authBaseURL @ ''/identities?usernames='' @ js_replace userEmail ''@'' ''%40''
           in request url
                \<lparr>auth_bearer = bearerToken, http_method = None, body = None, json = None\<rparr>)
      | _ \<Rightarrow> js_throw TypeError)"

subsection \<open>Endpoints\<close>

definition getEndpointById :: "jsval \<Rightarrow> options \<Rightarrow> promise js" where
  "getEndpointById bearerToken options =
     (let url = transferBaseURL @ ''/endpoint/'' @ ToString (field options ''endpoint_xid'')
      in request url
           \<lparr>auth_bearer = bearerToken, http_method = None, body = None, json = None\<rparr>)"

definition createEndpoint :: "jsval \<Rightarrow> options \<Rightarrow> promise js" where
  "createEndpoint bearerToken options =
     (let url = transferBaseURL @ ''/endpoint'';
          body = JObj
            [(''display_name'', field options ''display_name''),
             (''DATA'', field options ''documents'')]
      in request url
           \<lparr>auth_bearer = bearerToken, http_method = Some ''POST'', body = Some body, json = Some True\<rparr>)"

definition createSharedEndpoint :: "jsval \<Rightarrow> options \<Rightarrow> promise js" where
  "createSharedEndpoint bearerToken options =
     (let url = transferBaseURL @ ''/shared_endpoint'';
          body = JObj
            [(''DATA_TYPE'', JStr ''shared_endpoint''),
             (''display_name'', field options ''displayName''),
             (''host_endpoint'', field options ''hostId''),
             (''host_path'', field options ''path''),
             (''description'', field options ''description''),
             (''organization'', field options ''organization'')]
      in request url
           \<lparr>auth_bearer = bearerToken, http_method = Some ''POST'', body = Some body, json = Some True\<rparr>)"

definition updateEndpointById :: "jsval \<Rightarrow> options \<Rightarrow> promise js" where
  "updateEndpointById bearerToken options =
     (let url = transferBaseURL @ ''/endpoint/'' @ ToString (field options ''endpoint_xid'');
          body = field options ''document''
      in request url
           \<lparr>auth_bearer = bearerToken, http_method = Some ''POST'', body = Some body, json = Some True\<rparr>)"

definition deleteEndpointById :: "jsval \<Rightarrow> options \<Rightarrow> promise js" where
  "deleteEndpointById bearerToken options =
     (let url = transferBaseURL @ ''/endpoint/'' @ ToString (field options ''endpoint_xid'')
      in request url
           \<lparr>auth_bearer = bearerToken, http_method = Some ''DELETE'', body = None, json = None\<rparr>)"

definition getEffectivePauseRuleList :: "jsval \<Rightarrow> options \<Rightarrow> promise js" where
  "getEffectivePauseRuleList bearerToken options =
     (let url = transferBaseURL @ ''/endpoint/'' @ ToString (field options ''endpoint_xid'')
                @ ''/my_effective_pause_rule_list''
      in request url
           \<lparr>auth_bearer = bearerToken, http_method = None, body = None, json = None\<rparr>)"

subsection \<open>Servers of an endpoint\<close>

definition getEndpointServerList :: "jsval \<Rightarrow> options \<Rightarrow> promise js" where
  "getEndpointServerList bearerToken options =
     (let url = transferBaseURL @ ''/endpoint/'' @ ToString (field options ''endpoint_xid'') @ ''/server_list''
      in request url
           \<lparr>auth_bearer = bearerToken, http_method = None, body = None, json = None\<rparr>)"

text \<open>
  \<^verbatim>\<open>getEndpointServerById\<close> builds its URL, then throws; the call of \<^verbatim>\<open>request\<close> that
  follows the \<^verbatim>\<open>throw\<close> in the source is kept as the continuation.
\<close>

definition getEndpointServerById :: "jsval \<Rightarrow> options \<Rightarrow> promise js" where
  "getEndpointServerById bearerToken options =
     (let url = transferBaseURL @ ''/endpoint/'' @ ToString (field options ''endpoint_xid'') @ ''/server_list''
      in js_seq (js_throw (Error ''FIXME(param server_id not used)'') :: unit js)
           (request url
              \<lparr>auth_bearer = bearerToken, http_method = None, body = None, json = None\<rparr>))"

definition addEndpointServer :: "jsval \<Rightarrow> options \<Rightarrow> promise js" where
  "addEndpointServer bearerToken options =
     (let url = transferBaseURL @ ''/endpoint/'' @ ToString (field options ''endpoint_xid'') @ ''/server'';
          body = JObj
            [(''DATA_TYPE'', JStr ''server''),
             (''hostname'', field options ''hostname''),
             (''uri'', field options ''uri''),
             (''port'', js_or (field options ''port'') (JStr ''2811'')),
             (''scheme'', js_or (field options ''scheme'') (JStr ''gsiftp''))]
      in request url
           \<lparr>auth_bearer = bearerToken, http_method = Some ''POST'', body = Some body, json = Some True\<rparr>)"

definition updateEndpointServerById :: "jsval \<Rightarrow> options \<Rightarrow> promise js" where
  "updateEndpointServerById bearerToken options =
     (let url = transferBaseURL @ ''/endpoint/'' @ ToString (field options ''endpoint_xid'')
                @ ''/server/'' @ ToString (field options ''server_id'');
          body = JObj
            [(''DATA_TYPE'', JStr ''server''),
             (''hostname'', field options ''hostname''),
             (''uri'', field options ''uri''),
             (''port'', js_or (field options ''port'') (JStr ''2811'')),
             (''scheme'', js_or (field options ''scheme'') (JStr ''gsiftp'')),
             (''subject'', field options ''subject'')]
      in request url
           \<lparr>auth_bearer = bearerToken, http_method = Some ''PUT'', body = Some body, json = Some True\<rparr>)"

definition deleteEndpointServerById :: "jsval \<Rightarrow> options \<Rightarrow> promise js" where
  "deleteEndpointServerById bearerToken options =
     (let url = transferBaseURL @ ''/endpoint/'' @ ToString (field options ''endpoint_xid'')
                @ ''/server/'' @ ToString (field options ''server_id'')
      in request url
           \<lparr>auth_bearer = bearerToken, http_method = Some ''DELETE'', body = None, json = None\<rparr>)"

text \<open>
  \<^verbatim>\<open>getSharedEndpointList\<close> joins the endpoint id and \<^verbatim>\<open>'my_shared_endpoint_list'\<close>
  with nothing in between.
\<close>

definition getSharedEndpointList :: "jsval \<Rightarrow> options \<Rightarrow> promise js" where
  "getSharedEndpointList bearerToken options =
     (let url = transferBaseURL @ ''/endpoint/'' @ ToString (field options ''endpoint_xid'')
                @ ''my_shared_endpoint_list''
      in request url
           \<lparr>auth_bearer = bearerToken, http_method = None, body = None, json = None\<rparr>)"

subsection \<open>File operations\<close>

definition listDirectoryContents :: "jsval \<Rightarrow> options \<Rightarrow> promise js" where
  "listDirectoryContents bearerToken options =
     (let url = transferBaseURL @ ''/operation/endpoint/'' @ ToString (field options ''endpoint_xid'')
                @ ''/ls?path=''
                @ ToString (js_or (field options ''path'') (JStr ''/''))
                @ ToString (js_or (field options ''query_parameters'') (JStr []))
      in request url
           \<lparr>auth_bearer = bearerToken, http_method = None, body = None, json = None\<rparr>)"

definition makeDirectory :: "jsval \<Rightarrow> options \<Rightarrow> promise js" where
  "makeDirectory bearerToken options =
     (let url = transferBaseURL @ ''/operation/endpoint/'' @ ToString (field options ''endpoint_xid'')
                @ ''/mkdir'';
          body = JObj
            [(''DATA_TYPE'', JStr ''mkdir''),
             (''path'', field options ''path'')]
      in request url
           \<lparr>auth_bearer = bearerToken, http_method = Some ''POST'', body = Some body, json = Some True\<rparr>)"

definition rename :: "jsval \<Rightarrow> options \<Rightarrow> promise js" where
  "rename bearerToken options =
     (let url = transferBaseURL @ ''/operation/endpoint/'' @ ToString (field options ''endpoint_xid'')
                @ ''/rename'';
          body = JObj
            [(''DATA_TYPE'', JStr ''rename''),
             (''old_path'', field options ''old_path''),
             (''new_path'', field options ''new_path'')]
      in request url
           \<lparr>auth_bearer = bearerToken, http_method = Some ''POST'', body = Some body, json = Some True\<rparr>)"

subsection \<open>Task submission\<close>

definition getSubmissionId :: "jsval \<Rightarrow> promise js" where
  "getSubmissionId bearerToken =
     (let url = transferBaseURL @ ''/submission_id''
      in request url
           \<lparr>auth_bearer = bearerToken, http_method = None, body = None, json = None\<rparr>)"

definition submitTransferTask :: "jsval \<Rightarrow> options \<Rightarrow> promise js" where
  "submitTransferTask bearerToken options =
     (let url = transferBaseURL @ ''/transfer'';
          body = JObj
            [(''DATA_TYPE'', JStr ''transfer''),
             (''submission_id'', field options ''submission_id''),
             (''label'', field options ''label''),
             (''notify_on_succeeded'', field options ''notify_on_succeeded''),
             (''notify_on_failed'', field options ''notify_on_failed''),
             (''notify_on_inactive'', field options ''notify_on_inactive''),
             (''source_endpoint'', field options ''source_endpoint''),
             (''destination_endpoint'', field options ''destination_endpoint''),
             (''DATA'', field options ''DATA''),
             (''encrypt_data'', field options ''encrypt_data''),
             (''sync_level'', field options ''sync_level''),
             (''verify_checksum'', field options ''verify_checksum''),
             (''preserve_timestamp'', field options ''preserve_timestamp''),
             (''delete_destination_extra'', field options ''delete_destination_extra'')]
      in request url
           \<lparr>auth_bearer = bearerToken, http_method = Some ''POST'', body = Some body, json = Some True\<rparr>)"

text \<open>
  \<^verbatim>\<open>submitDeletionTask\<close> throws in its first statement; the statements after the
  \<^verbatim>\<open>throw\<close> are kept as the continuation.
\<close>

definition submitDeletionTask :: "jsval \<Rightarrow> options \<Rightarrow> promise js" where
  "submitDeletionTask bearerToken options =
     js_seq (js_throw (Error ''Not implemented'') :: unit js)
       (let url = transferBaseURL @ ''/delete'';
            body = JObj
              [(''DATA_TYPE'', JStr ''delete''),
               (''endpoint'', field options ''endpoint''),
               (''recursive'', field options ''recursive''),
               (''ignore_missing'', field options ''ignore_missing''),
               (''interpret_globs'', field options ''interpret_globs'')]
        in request url
             \<lparr>auth_bearer = bearerToken, http_method = Some ''POST'', body = Some body, json = Some True\<rparr>)"

subsection \<open>The exports, by name\<close>

datatype operation =
    Op_getAccessRulesList
  | Op_getAccessRulesListById
  | Op_createAccessRule
  | Op_updateAccessRule
  | Op_deleteAccessRule
  | Op_getActivationRequirements
  | Op_autoActivateEndpoint
  | Op_activateEndpoint
  | Op_deactivateEndpoint
  | Op_getUserId
  | Op_getEndpointById
  | Op_createEndpoint
  | Op_createSharedEndpoint
  | Op_updateEndpointById
  | Op_deleteEndpointById
  | Op_getEffectivePauseRuleList
  | Op_getEndpointServerList
  | Op_getEndpointServerById
  | Op_addEndpointServer
  | Op_updateEndpointServerById
  | Op_deleteEndpointServerById
  | Op_getSharedEndpointList
  | Op_listDirectoryContents
  | Op_makeDirectory
  | Op_rename
  | Op_getSubmissionId
  | Op_submitTransferTask
  | Op_submitDeletionTask

text \<open>
  \<open>exports\<close> is the module object: the function each exported name is bound to.
  \<^verbatim>\<open>getSubmissionId\<close> has the bearer token as its only parameter.
\<close>

fun exports :: "operation \<Rightarrow> jsval \<Rightarrow> options \<Rightarrow> promise js" where
  "exports Op_getAccessRulesList = getAccessRulesList"
| "exports Op_getAccessRulesListById = getAccessRulesListById"
| "exports Op_createAccessRule = createAccessRule"
| "exports Op_updateAccessRule = updateAccessRule"
| "exports Op_deleteAccessRule = deleteAccessRule"
| "exports Op_getActivationRequirements = getActivationRequirements"
| "exports Op_autoActivateEndpoint = autoActivateEndpoint"
| "exports Op_activateEndpoint = activateEndpoint"
| "exports Op_deactivateEndpoint = deactivateEndpoint"
| "exports Op_getUserId = getUserId"
| "exports Op_getEndpointById = getEndpointById"
| "exports Op_createEndpoint = createEndpoint"
| "exports Op_createSharedEndpoint = createSharedEndpoint"
| "exports Op_updateEndpointById = updateEndpointById"
| "exports Op_deleteEndpointById = deleteEndpointById"
| "exports Op_getEffectivePauseRuleList = getEffectivePauseRuleList"
| "exports Op_getEndpointServerList = getEndpointServerList"
| "exports Op_getEndpointServerById = getEndpointServerById"
| "exports Op_addEndpointServer = addEndpointServer"
| "exports Op_updateEndpointServerById = updateEndpointServerById"
| "exports Op_deleteEndpointServerById = deleteEndpointServerById"
| "exports Op_getSharedEndpointList = getSharedEndpointList"
| "exports Op_listDirectoryContents = listDirectoryContents"
| "exports Op_makeDirectory = makeDirectory"
| "exports Op_rename = rename"
| "exports Op_getSubmissionId = (\<lambda>bearerToken options. getSubmissionId bearerToken)"
| "exports Op_submitTransferTask = submitTransferTask"
| "exports Op_submitDeletionTask = submitDeletionTask"

section \<open>Reading a request body\<close>

text \<open>
  \<open>member b k\<close> is the value a body object holds under the key \<open>k\<close>, and \<open>None\<close> when
  \<open>b\<close> has no such key or is not an object. A key written twice in an object literal
  keeps its last value.
\<close>

fun member :: "jsval \<Rightarrow> string \<Rightarrow> jsval option" where
  "member (JObj fs) k = map_of (rev fs) k"
| "member v k = None"

section \<open>Basic facts about the effects\<close>

lemma request_result:
  "request u ro net = (Inr (ResponseOf (descriptor u ro)), net @ [descriptor u ro])"
  by (simp add: request_def)

lemma js_seq_throw: "js_seq (js_throw e) rest net = (Inl e, net)"
  by (simp add: js_seq_def js_throw_def)

lemma field_absent: "options k = None \<Longrightarrow> field options k = JUndefined"
  by (simp add: field_def)

lemma field_removed: "field (options(k := None)) k = JUndefined"
  by (simp add: field_def)

lemma field_other: "k \<noteq> k' \<Longrightarrow> field (options(k' := x)) k = field options k"
  by (simp add: field_def)

lemma js_or_undefined: "js_or JUndefined b = b"
  by (simp add: js_or_def)

lemma js_or_falsy: "\<not> ToBoolean a \<Longrightarrow> js_or a b = b"
  by (simp add: js_or_def)

lemma string_of_int_7: "string_of_int 7 = ''7''"
  by code_simp

text \<open>
  On a string with an \<^verbatim>\<open>@\<close>, \<open>js_replace\<close> rewrites the first one and leaves the rest
  of the string as it is.
\<close>

lemma js_replace_first_at:
  "CHR ''@'' \<notin> set xs \<Longrightarrow> js_replace (xs @ CHR ''@'' # ys) ''@'' ''%40'' = xs @ ''%40'' @ ys"
  by (induction xs) auto

lemma js_replace_no_at:
  "CHR ''@'' \<notin> set xs \<Longrightarrow> js_replace xs ''@'' ''%40'' = xs"
  by (induction xs) auto

lemmas builder_defs =
  getAccessRulesList_def getAccessRulesListById_def createAccessRule_def updateAccessRule_def
  deleteAccessRule_def getActivationRequirements_def autoActivateEndpoint_def
  activateEndpoint_def deactivateEndpoint_def getEndpointById_def createEndpoint_def
  createSharedEndpoint_def updateEndpointById_def deleteEndpointById_def
  getEffectivePauseRuleList_def getEndpointServerList_def addEndpointServer_def
  updateEndpointServerById_def deleteEndpointServerById_def getSharedEndpointList_def
  listDirectoryContents_def makeDirectory_def rename_def getSubmissionId_def
  submitTransferTask_def

text \<open>
  Every operation but the two that throw and \<^verbatim>\<open>getUserId\<close> ends in one call of
  \<^verbatim>\<open>request\<close> with \<^verbatim>\<open>auth: { bearer: bearerToken }\<close>.
\<close>

lemma builder_request:
  "op \<noteq> Op_getEndpointServerById \<Longrightarrow> op \<noteq> Op_submitDeletionTask \<Longrightarrow> op \<noteq> Op_getUserId \<Longrightarrow>
   \<exists>r. exports op bearerToken options net = (Inr (ResponseOf r), net @ [r]) \<and> bearer r = bearerToken"
  by (cases op) (simp_all add: builder_defs request_result descriptor_def Let_def)

lemma getUserId_string:
  "field options ''userEmail'' = JStr s \<Longrightarrow>
   \<exists>r. getUserId bearerToken options net = (Inr (ResponseOf r), net @ [r]) \<and> bearer r = bearerToken"
  by (simp add: getUserId_def request_result descriptor_def)

lemma getUserId_not_string:
  "\<forall>s. field options ''userEmail'' \<noteq> JStr s \<Longrightarrow>
   getUserId bearerToken options net = (Inl TypeError, net)"
  by (cases "field options ''userEmail''") (simp_all add: getUserId_def js_throw_def)

section \<open>The requests of single operations\<close>

text \<open>
  \<^verbatim>\<open>deleteAccessRule\<close>: a DELETE whose URL starts with whatever the bag holds under
  \<^verbatim>\<open>transferBaseURL\<close>.
\<close>

lemma deleteAccessRule_request:
  "\<exists>r. deleteAccessRule bearerToken options net = (Inr (ResponseOf r), net @ [r])
     \<and> req_method r = Some ''DELETE''
     \<and> url r = ToString (field options ''transferBaseURL'') @ ''/endpoint/''
          @ ToString (field options ''endpoint_xid'') @ ''/access/'' @ ToString (field options ''id'')"
  by (simp add: deleteAccessRule_def request_result descriptor_def)

text \<open>
  \<^verbatim>\<open>createAccessRule\<close>: the body has the principal, the path and the notification email
  of the bag, and the permission \<^verbatim>\<open>r\<close>.
\<close>

lemma createAccessRule_body:
  "\<exists>r b. createAccessRule bearerToken options net = (Inr (ResponseOf r), net @ [r])
     \<and> payload r = Some b
     \<and> member b ''principal'' = Some (field options ''userId'')
     \<and> member b ''path'' = Some (field options ''path'')
     \<and> member b ''notify_email'' = Some (field options ''userEmail'')
     \<and> member b ''permissions'' = Some (JStr ''r'')"
  by (simp add: createAccessRule_def request_result descriptor_def)

text \<open>
  \<^verbatim>\<open>getUserId\<close> on an email with exactly one \<^verbatim>\<open>@\<close>: the URL has \<^verbatim>\<open>%40\<close> in its place.
\<close>

lemma getUserId_single_at:
  assumes "field options ''userEmail'' = JStr (name @ CHR ''@'' # domain)"
    and "CHR ''@'' \<notin> set name"
  shows "\<exists>r. getUserId bearerToken options net = (Inr (ResponseOf r), net @ [r])
     \<and> url r = authBaseURL @ ''/identities?usernames='' @ name @ ''%40'' @ domain"
  using assms
  by (simp add: getUserId_def request_result descriptor_def js_replace_first_at)

text \<open>
  \<^verbatim>\<open>getSharedEndpointList\<close>: the endpoint id is followed at once by
  \<^verbatim>\<open>my_shared_endpoint_list\<close>.
\<close>

lemma getSharedEndpointList_request:
  "\<exists>r. getSharedEndpointList bearerToken options net = (Inr (ResponseOf r), net @ [r])
     \<and> url r = transferBaseURL @ ''/endpoint/'' @ ToString (field options ''endpoint_xid'')
          @ ''my_shared_endpoint_list''"
  by (simp add: getSharedEndpointList_def request_result descriptor_def)

section \<open>The claims\<close>

text \<open>
  C1. \<^verbatim>\<open>deleteAccessRule\<close> at the documented options (an endpoint id and a rule id): the
  request is a DELETE, and its URL starts with the text \<^verbatim>\<open>undefined\<close> where the
  transfer-management base URL belongs, because the URL is built from the field
  \<^verbatim>\<open>options.transferBaseURL\<close>, which the bag does not have.
\<close>

theorem deleteAccessRule_url_without_base:
  "deleteAccessRule (JStr ''tok'') [''endpoint_xid'' \<mapsto> JStr ''abc'', ''id'' \<mapsto> JNum 7] [] =
     (Inr (ResponseOf
        \<lparr>url = ''undefined/endpoint/abc/access/7'', bearer = JStr ''tok'',
         req_method = Some ''DELETE'', payload = None, json_mode = None\<rparr>),
      [\<lparr>url = ''undefined/endpoint/abc/access/7'', bearer = JStr ''tok'',
        req_method = Some ''DELETE'', payload = None, json_mode = None\<rparr>])"
  by (simp add: deleteAccessRule_def request_result descriptor_def field_def string_of_int_7)

text \<open>
  C2. \<^verbatim>\<open>createAccessRule\<close> with the caller asking for read-write permission: the body
  carries the principal, the path and the notification email of the bag, and its
  \<^verbatim>\<open>permissions\<close> field is \<^verbatim>\<open>r\<close>, not the \<^verbatim>\<open>rw\<close> supplied.
\<close>

theorem createAccessRule_ignores_permissions:
  "createAccessRule (JStr ''tok'')
     [''endpoint_xid'' \<mapsto> JStr ''abc'', ''userId'' \<mapsto> JStr ''u1'', ''path'' \<mapsto> JStr ''/data/'',
      ''permissions'' \<mapsto> JStr ''rw'', ''userEmail'' \<mapsto> JStr ''u1@example.org''] [] =
     (Inr (ResponseOf
        \<lparr>url = ''https://transfer.api.globusonline.org/v0.10/endpoint/abc/access'',
         bearer = JStr ''tok'', req_method = Some ''POST'',
         payload = Some (JObj
           [(''DATA_TYPE'', JStr ''access''), (''principal_type'', JStr ''identity''),
            (''principal'', JStr ''u1''), (''path'', JStr ''/data/''),
            (''permissions'', JStr ''r''), (''notify_email'', JStr ''u1@example.org'')]),
         json_mode = Some True\<rparr>),
      [\<lparr>url = ''https://transfer.api.globusonline.org/v0.10/endpoint/abc/access'',
        bearer = JStr ''tok'', req_method = Some ''POST'',
        payload = Some (JObj
          [(''DATA_TYPE'', JStr ''access''), (''principal_type'', JStr ''identity''),
           (''principal'', JStr ''u1''), (''path'', JStr ''/data/''),
           (''permissions'', JStr ''r''), (''notify_email'', JStr ''u1@example.org'')]),
        json_mode = Some True\<rparr>])"
  by (simp add: createAccessRule_def request_result descriptor_def field_def transferBaseURL_def)

text \<open>
  C3. For every bearer token and every options bag, \<^verbatim>\<open>submitDeletionTask\<close> throws the
  error \<^verbatim>\<open>Not implemented\<close> and hands no request to the HTTP client: the list of
  requests is the one it started with.
\<close>

theorem submitDeletionTask_not_implemented:
  "submitDeletionTask bearerToken options net = (Inl (Error ''Not implemented''), net)"
  by (simp add: submitDeletionTask_def js_seq_throw)

text \<open>
  C4. For every bearer token and every options bag, \<^verbatim>\<open>getEndpointServerById\<close> throws an
  explicit error that names the unused \<^verbatim>\<open>server_id\<close> parameter, and hands no request
  to the HTTP client.
\<close>

theorem getEndpointServerById_throws_before_request:
  "getEndpointServerById bearerToken options net =
     (Inl (Error ''FIXME(param server_id not used)''), net)"
  by (simp add: getEndpointServerById_def js_seq_throw Let_def)

text \<open>
  C5. For every bearer token and every options bag that has neither a \<^verbatim>\<open>port\<close> nor a
  \<^verbatim>\<open>scheme\<close> field, \<^verbatim>\<open>addEndpointServer\<close> hands over one request whose body has
  \<^verbatim>\<open>port: "2811"\<close> and \<^verbatim>\<open>scheme: "gsiftp"\<close>.
\<close>

theorem addEndpointServer_defaults:
  assumes "options ''port'' = None" and "options ''scheme'' = None"
  shows "\<exists>r b. addEndpointServer bearerToken options net = (Inr (ResponseOf r), net @ [r])
           \<and> payload r = Some b
           \<and> member b ''port'' = Some (JStr ''2811'')
           \<and> member b ''scheme'' = Some (JStr ''gsiftp'')"
  using assms
  by (simp add: addEndpointServer_def request_result descriptor_def field_absent js_or_def)

theorem addEndpointServer_defaults_witness:
  "\<exists>r b. addEndpointServer (JStr ''tok'')
            [''endpoint_xid'' \<mapsto> JStr ''abc'', ''hostname'' \<mapsto> JStr ''gridftp.example.org''] [] =
            (Inr (ResponseOf r), [r])
         \<and> payload r = Some b
         \<and> member b ''port'' = Some (JStr ''2811'')
         \<and> member b ''scheme'' = Some (JStr ''gsiftp'')"
  using addEndpointServer_defaults
    [of "[''endpoint_xid'' \<mapsto> JStr ''abc'', ''hostname'' \<mapsto> JStr ''gridftp.example.org'']"
        "JStr ''tok''" "[]"]
  by simp

text \<open>
  C6. \<^verbatim>\<open>getUserId\<close> on a \<^verbatim>\<open>userEmail\<close> string with two \<^verbatim>\<open>@\<close> (two user names, as the
  \<^verbatim>\<open>usernames\<close> query parameter lists them): the first \<^verbatim>\<open>@\<close> is encoded as \<^verbatim>\<open>%40\<close>
  and the second one is in the URL as it is.
\<close>

theorem getUserId_encodes_first_at_only:
  "getUserId (JStr ''tok'') [''userEmail'' \<mapsto> JStr ''ann@example.org,bob@example.org''] [] =
     (Inr (ResponseOf
        \<lparr>url = ''https://auth.globus.org/v2/api/identities?usernames=ann%40example.org,bob@example.org'',
         bearer = JStr ''tok'', req_method = None, payload = None, json_mode = None\<rparr>),
      [\<lparr>url = ''https://auth.globus.org/v2/api/identities?usernames=ann%40example.org,bob@example.org'',
        bearer = JStr ''tok'', req_method = None, payload = None, json_mode = None\<rparr>])"
  by (simp add: getUserId_def request_result descriptor_def field_def authBaseURL_def)

text \<open>
  C7. \<^verbatim>\<open>getSharedEndpointList\<close> for the endpoint \<^verbatim>\<open>abc\<close>: the URL ends with
  \<^verbatim>\<open>/endpoint/abcmy_shared_endpoint_list\<close>, the endpoint id and the last segment run
  together with no \<^verbatim>\<open>/\<close> between them.
\<close>

theorem getSharedEndpointList_url_without_separator:
  "getSharedEndpointList (JStr ''tok'') [''endpoint_xid'' \<mapsto> JStr ''abc''] [] =
     (Inr (ResponseOf
        \<lparr>url = ''https://transfer.api.globusonline.org/v0.10/endpoint/abcmy_shared_endpoint_list'',
         bearer = JStr ''tok'', req_method = None, payload = None, json_mode = None\<rparr>),
      [\<lparr>url = ''https://transfer.api.globusonline.org/v0.10/endpoint/abcmy_shared_endpoint_list'',
        bearer = JStr ''tok'', req_method = None, payload = None, json_mode = None\<rparr>])"
  by (simp add: getSharedEndpointList_def request_result descriptor_def field_def transferBaseURL_def)

text \<open>
  C8. Every call of an exported operation either hands exactly one request to the HTTP
  client, and that request carries the caller's bearer token as its bearer
  credential, or throws without a request. It throws only in \<^verbatim>\<open>getEndpointServerById\<close>
  and \<^verbatim>\<open>submitDeletionTask\<close>, and in \<^verbatim>\<open>getUserId\<close> when \<^verbatim>\<open>userEmail\<close> is not a string.
\<close>

theorem every_request_carries_bearer_token:
  "(\<exists>r. exports op bearerToken options net = (Inr (ResponseOf r), net @ [r]) \<and> bearer r = bearerToken)
   \<or> (\<exists>e. exports op bearerToken options net = (Inl e, net)
        \<and> (op = Op_getEndpointServerById \<or> op = Op_submitDeletionTask
           \<or> (op = Op_getUserId \<and> (\<forall>s. field options ''userEmail'' \<noteq> JStr s))))"
proof -
  consider (server) "op = Op_getEndpointServerById" | (deletion) "op = Op_submitDeletionTask"
    | (user) "op = Op_getUserId"
    | (builder) "op \<noteq> Op_getEndpointServerById" "op \<noteq> Op_submitDeletionTask" "op \<noteq> Op_getUserId"
    by blast
  then show ?thesis
  proof cases
    case server
    then show ?thesis by (simp add: getEndpointServerById_def js_seq_throw Let_def)
  next
    case deletion
    then show ?thesis by (simp add: submitDeletionTask_def js_seq_throw)
  next
    case user
    show ?thesis
    proof (cases "\<exists>s. field options ''userEmail'' = JStr s")
      case True
      then obtain s where "field options ''userEmail'' = JStr s" by blast
      from getUserId_string [OF this] user show ?thesis by simp
    next
      case False
      then have no_string: "\<forall>s. field options ''userEmail'' \<noteq> JStr s" by blast
      from getUserId_not_string [OF no_string] no_string user show ?thesis by simp
    qed
  next
    case builder
    from builder_request [OF builder] show ?thesis by blast
  qed
qed

theorem every_request_carries_bearer_token_witness:
  "\<exists>r. exports Op_makeDirectory (JStr ''tok'')
          [''endpoint_xid'' \<mapsto> JStr ''abc'', ''path'' \<mapsto> JStr ''/data/new/''] [] =
          (Inr (ResponseOf r), [r])
       \<and> bearer r = JStr ''tok''"
  using every_request_carries_bearer_token
    [of Op_makeDirectory "JStr ''tok''"
        "[''endpoint_xid'' \<mapsto> JStr ''abc'', ''path'' \<mapsto> JStr ''/data/new/'']" "[]"]
  by simp

text \<open>
  C9. \<^verbatim>\<open>listDirectoryContents\<close> with the \<^verbatim>\<open>path\<close> field omitted and the extra query
  parameters \<^verbatim>\<open>&limit=10\<close>: the query parameters follow the path as they are, and the
  URL names the path \<^verbatim>\<open>/\<close>. The request is the same as the one for the explicit path
  \<^verbatim>\<open>/\<close>, so the remote side is given a path and cannot apply the default of the
  endpoint's type (\<^verbatim>\<open>/~/\<close> on a GridFTP endpoint, as the doc comment of the function
  says).
\<close>

theorem listDirectoryContents_omitted_path_is_root:
  "listDirectoryContents (JStr ''tok'')
     [''endpoint_xid'' \<mapsto> JStr ''abc'', ''query_parameters'' \<mapsto> JStr ''&limit=10''] [] =
     (Inr (ResponseOf
        \<lparr>url = ''https://transfer.api.globusonline.org/v0.10/operation/endpoint/abc/ls?path=/&limit=10'',
         bearer = JStr ''tok'', req_method = None, payload = None, json_mode = None\<rparr>),
      [\<lparr>url = ''https://transfer.api.globusonline.org/v0.10/operation/endpoint/abc/ls?path=/&limit=10'',
        bearer = JStr ''tok'', req_method = None, payload = None, json_mode = None\<rparr>])
   \<and> listDirectoryContents (JStr ''tok'')
       [''endpoint_xid'' \<mapsto> JStr ''abc'', ''query_parameters'' \<mapsto> JStr ''&limit=10''] [] =
     listDirectoryContents (JStr ''tok'')
       [''endpoint_xid'' \<mapsto> JStr ''abc'', ''query_parameters'' \<mapsto> JStr ''&limit=10'',
        ''path'' \<mapsto> JStr ''/''] []"
  by (simp add: listDirectoryContents_def request_result descriptor_def field_def js_or_def
      transferBaseURL_def)

text \<open>
  C10. In \<^verbatim>\<open>addEndpointServer\<close> and \<^verbatim>\<open>updateEndpointServerById\<close>, a \<^verbatim>\<open>port\<close> field that is
  falsy (absent, \<^verbatim>\<open>undefined\<close>, \<^verbatim>\<open>null\<close>, \<^verbatim>\<open>false\<close>, \<^verbatim>\<open>0\<close>, \<^verbatim>\<open>NaN\<close> or \<^verbatim>\<open>''\<close>) gives
  the same call as a bag without the field, and the body has \<^verbatim>\<open>port: "2811"\<close>; a falsy
  \<^verbatim>\<open>scheme\<close> field likewise gives \<^verbatim>\<open>scheme: "gsiftp"\<close>.
\<close>

theorem falsy_port_and_scheme_are_defaulted:
  "(\<not> ToBoolean (field options ''port'') \<longrightarrow>
      addEndpointServer bearerToken options = addEndpointServer bearerToken (options(''port'' := None))
    \<and> updateEndpointServerById bearerToken options =
        updateEndpointServerById bearerToken (options(''port'' := None))
    \<and> (\<exists>r b. addEndpointServer bearerToken options net = (Inr (ResponseOf r), net @ [r])
          \<and> payload r = Some b \<and> member b ''port'' = Some (JStr ''2811''))
    \<and> (\<exists>r b. updateEndpointServerById bearerToken options net = (Inr (ResponseOf r), net @ [r])
          \<and> payload r = Some b \<and> member b ''port'' = Some (JStr ''2811'')))
   \<and> (\<not> ToBoolean (field options ''scheme'') \<longrightarrow>
      addEndpointServer bearerToken options = addEndpointServer bearerToken (options(''scheme'' := None))
    \<and> updateEndpointServerById bearerToken options =
        updateEndpointServerById bearerToken (options(''scheme'' := None))
    \<and> (\<exists>r b. addEndpointServer bearerToken options net = (Inr (ResponseOf r), net @ [r])
          \<and> payload r = Some b \<and> member b ''scheme'' = Some (JStr ''gsiftp''))
    \<and> (\<exists>r b. updateEndpointServerById bearerToken options net = (Inr (ResponseOf r), net @ [r])
          \<and> payload r = Some b \<and> member b ''scheme'' = Some (JStr ''gsiftp'')))"
proof (intro conjI impI)
  assume falsy: "\<not> ToBoolean (field options ''port'')"
  show "addEndpointServer bearerToken options = addEndpointServer bearerToken (options(''port'' := None))"
    using falsy by (simp add: addEndpointServer_def field_other field_removed js_or_falsy js_or_undefined)
  show "updateEndpointServerById bearerToken options =
        updateEndpointServerById bearerToken (options(''port'' := None))"
    using falsy by (simp add: updateEndpointServerById_def field_other field_removed js_or_falsy js_or_undefined)
  show "\<exists>r b. addEndpointServer bearerToken options net = (Inr (ResponseOf r), net @ [r])
          \<and> payload r = Some b \<and> member b ''port'' = Some (JStr ''2811'')"
    using falsy by (simp add: addEndpointServer_def request_result descriptor_def js_or_falsy)
  show "\<exists>r b. updateEndpointServerById bearerToken options net = (Inr (ResponseOf r), net @ [r])
          \<and> payload r = Some b \<and> member b ''port'' = Some (JStr ''2811'')"
    using falsy by (simp add: updateEndpointServerById_def request_result descriptor_def js_or_falsy)
next
  assume falsy: "\<not> ToBoolean (field options ''scheme'')"
  show "addEndpointServer bearerToken options = addEndpointServer bearerToken (options(''scheme'' := None))"
    using falsy by (simp add: addEndpointServer_def field_other field_removed js_or_falsy js_or_undefined)
  show "updateEndpointServerById bearerToken options =
        updateEndpointServerById bearerToken (options(''scheme'' := None))"
    using falsy by (simp add: updateEndpointServerById_def field_other field_removed js_or_falsy js_or_undefined)
  show "\<exists>r b. addEndpointServer bearerToken options net = (Inr (ResponseOf r), net @ [r])
          \<and> payload r = Some b \<and> member b ''scheme'' = Some (JStr ''gsiftp'')"
    using falsy by (simp add: addEndpointServer_def request_result descriptor_def js_or_falsy)
  show "\<exists>r b. updateEndpointServerById bearerToken options net = (Inr (ResponseOf r), net @ [r])
          \<and> payload r = Some b \<and> member b ''scheme'' = Some (JStr ''gsiftp'')"
    using falsy by (simp add: updateEndpointServerById_def request_result descriptor_def js_or_falsy)
qed

theorem falsy_port_and_scheme_are_defaulted_witness:
  "\<not> ToBoolean (field [''endpoint_xid'' \<mapsto> JStr ''abc'', ''port'' \<mapsto> JStr [], ''scheme'' \<mapsto> JNum 0] ''port'')
   \<and> \<not> ToBoolean (field [''endpoint_xid'' \<mapsto> JStr ''abc'', ''port'' \<mapsto> JStr [], ''scheme'' \<mapsto> JNum 0] ''scheme'')
   \<and> (\<exists>r b. addEndpointServer (JStr ''tok'')
               [''endpoint_xid'' \<mapsto> JStr ''abc'', ''port'' \<mapsto> JStr [], ''scheme'' \<mapsto> JNum 0] [] =
               (Inr (ResponseOf r), [r])
            \<and> payload r = Some b \<and> member b ''port'' = Some (JStr ''2811''))
   \<and> (\<exists>r b. updateEndpointServerById (JStr ''tok'')
               [''endpoint_xid'' \<mapsto> JStr ''abc'', ''port'' \<mapsto> JStr [], ''scheme'' \<mapsto> JNum 0] [] =
               (Inr (ResponseOf r), [r])
            \<and> payload r = Some b \<and> member b ''scheme'' = Some (JStr ''gsiftp''))"
proof -
  have port_falsy:
    "\<not> ToBoolean (field [''endpoint_xid'' \<mapsto> JStr ''abc'', ''port'' \<mapsto> JStr [], ''scheme'' \<mapsto> JNum 0] ''port'')"
    by (simp add: field_def)
  have scheme_falsy:
    "\<not> ToBoolean (field [''endpoint_xid'' \<mapsto> JStr ''abc'', ''port'' \<mapsto> JStr [], ''scheme'' \<mapsto> JNum 0] ''scheme'')"
    by (simp add: field_def)
  show ?thesis
    using port_falsy scheme_falsy
      falsy_port_and_scheme_are_defaulted
        [of "[''endpoint_xid'' \<mapsto> JStr ''abc'', ''port'' \<mapsto> JStr [], ''scheme'' \<mapsto> JNum 0]"
            "JStr ''tok''" "[]"]
    unfolding append_Nil by blast
qed

end
